theory Spec2Isabelle
  imports Main
begin

section \<open>The collaboration service (TypeScript, collaboration.service.ts)\<close>

text \<open>
  The service keeps \<open>Collaboration\<close> and \<open>Vote\<close> entities in two TypeORM repositories
  and reads \<open>Product\<close> entities (the agents) through Vendure's product service. The
  repositories are modelled as lists in insertion order inside one \<open>store\<close> record that every
  method takes and returns. Entity ids are the generated primary keys of the tables, modelled
  as natural numbers handed out by a counter. \<open>new Date()\<close> is the argument \<open>now\<close>.
  A lookup that finds nothing yields \<open>undefined\<close> in the source, here \<open>None\<close>; reading or
  writing a property of \<open>undefined\<close> throws a \<open>TypeError\<close>, which rejects the promise the
  method returns. A lookup that names a relation the entity does not declare is rejected by
  the repository (\<open>RelationNotFound\<close>), and a save that the database layer refuses is
  rejected as a whole (\<open>SaveRejected\<close>). The methods themselves open no transaction, so what
  one save has written stays written when a later statement throws: every method returns the
  store next to its result.
\<close>

type_synonym ID = nat
type_synonym Date = nat
type_synonym Product = ID

datatype CollaborationStatus = PENDING | VOTING | ACTIVE | COMPLETED | FAILED

datatype js_error = TypeError | RelationNotFound | SaveRejected

record VendureEntity =
  entity_id :: ID

record Collaboration = VendureEntity +
  quorumId :: string
  agents :: "Product option list"
  status :: CollaborationStatus
  tokenAddress :: "string option"
  tokenName :: "string option"
  tokenSymbol :: "string option"
  marketCap :: string
  graduated :: bool
  graduatedAt :: "Date option"
  votesReceived :: nat
  requiredVotes :: nat
  metadata :: "string option"

record Vote = VendureEntity +
  collaboration :: "ID option"
  agent :: "Product option"
  transactionHash :: string
  votedAt :: Date
  signature :: "string option"

record store =
  products :: "Product list"
  collaborations :: "Collaboration list"
  votes :: "Vote list"
  nextCollaborationId :: ID
  nextVoteId :: ID

definition empty_store :: "Product list \<Rightarrow> store" where
  "empty_store ps =
     \<lparr>products = ps, collaborations = [], votes = [], nextCollaborationId = 1, nextVoteId = 1\<rparr>"

text \<open>\<open>productService.findOne(ctx, id)\<close>: the product with that id, or \<open>undefined\<close>.\<close>

definition productService_findOne :: "store \<Rightarrow> ID \<Rightarrow> Product option" where
  "productService_findOne st i = (if i \<in> set (products st) then Some i else None)"

text \<open>
  The relations of the entity class \<open>Collaboration\<close>: it declares \<open>agents\<close>
  (\<open>@ManyToMany(() => Product)\<close>) and nothing else; the \<open>Vote\<close> class points to its
  collaboration, but \<open>Collaboration\<close> has no \<open>votes\<close> property.
  \<open>repository.findOne({ where, relations })\<close> resolves every name in \<open>relations\<close> against
  the entity before it runs the query and rejects when one is not declared; otherwise it
  yields the first row that matches.
\<close>

definition Collaboration_relations :: "string list" where
  "Collaboration_relations = [''agents'']"

definition repository_findOne ::
  "store \<Rightarrow> (Collaboration \<Rightarrow> bool) \<Rightarrow> string list \<Rightarrow> js_error + Collaboration option" where
  "repository_findOne st P relations =
     (if list_all (\<lambda>r. r \<in> set Collaboration_relations) relations
      then Inr (find P (collaborations st))
      else Inl RelationNotFound)"

text \<open>
  \<open>findOne\<close> asks for \<open>relations: ['agents', 'votes']\<close>. The other two finders ask for
  \<open>relations: ['agents']\<close> only, which is declared, so they are the plain first-match
  lookups. Neither \<open>quorumId\<close> nor \<open>tokenAddress\<close> nor \<open>transactionHash\<close> is declared
  unique in the entity classes (\<open>@Column()\<close> without the \<open>unique\<close> option), and the listed
  SQL indexes are plain \<open>CREATE INDEX\<close>.
\<close>

definition findOne :: "store \<Rightarrow> ID \<Rightarrow> js_error + Collaboration option" where
  "findOne st i = repository_findOne st (\<lambda>c. entity_id c = i) [''agents'', ''votes'']"

definition findByQuorumId :: "store \<Rightarrow> string \<Rightarrow> Collaboration option" where
  "findByQuorumId st q = find (\<lambda>c. quorumId c = q) (collaborations st)"

definition findByTokenAddress :: "store \<Rightarrow> string \<Rightarrow> Collaboration option" where
  "findByTokenAddress st a = find (\<lambda>c. tokenAddress c = Some a) (collaborations st)"

text \<open>
  \<open>getRepository(Collaboration).save(c)\<close> for an entity that was loaded before (it has an
  id): the row with that id is overwritten.
\<close>

definition save_Collaboration :: "store \<Rightarrow> Collaboration \<Rightarrow> store" where
  "save_Collaboration st c =
     st\<lparr>collaborations :=
          map (\<lambda>d. if entity_id d = entity_id c then c else d) (collaborations st)\<rparr>"

text \<open>
  \<open>createCollaboration\<close> looks every agent id up and saves a new entity with the results as
  its \<open>agents\<close>. The save writes the row and one row of the join table
  \<open>collaboration_agents\<close> per agent, as one unit: it is rejected, and nothing is stored, when
  an id has no product (the entry is \<open>undefined\<close>) or when an id occurs twice (the join
  table's key is the pair of ids). \<open>marketCap\<close> is not set by the method; the column
  \<open>decimal(18,8)\<close> with default 0 reads back as \<open>0.00000000\<close>.
\<close>

definition createCollaboration ::
  "store \<Rightarrow> string \<Rightarrow> ID list \<Rightarrow> (js_error + Collaboration) \<times> store" where
  "createCollaboration st q agentIds =
     (let agts = map (productService_findOne st) agentIds
      in if None \<in> set agts \<or> \<not> distinct agentIds then (Inl SaveRejected, st)
         else (let c = \<lparr>entity_id = nextCollaborationId st,
                         quorumId = q,
                         agents = agts,
                         status = PENDING,
                         tokenAddress = None, tokenName = None, tokenSymbol = None,
                         marketCap = ''0.00000000'',
                         graduated = False, graduatedAt = None,
                         votesReceived = 0,
                         requiredVotes = length agts,
                         metadata = None\<rparr>
               in (Inr c, st\<lparr>collaborations := collaborations st @ [c],
                             nextCollaborationId := Suc (nextCollaborationId st)\<rparr>)))"

text \<open>
  \<open>recordVote\<close>: first \<open>await this.findOne(ctx, collaborationId)\<close>; when that lookup rejects,
  the method rejects with the same error and nothing after it runs. After it the agent is
  looked up, the vote is built and saved, and the counter of the loaded collaboration is
  incremented; were the collaboration \<open>undefined\<close> there, the vote row would already be
  written when \<open>collaboration.votesReceived\<close> throws.
\<close>

definition recordVote ::
  "store \<Rightarrow> Date \<Rightarrow> ID \<Rightarrow> ID \<Rightarrow> string \<Rightarrow> (js_error + Vote) \<times> store" where
  "recordVote st now collaborationId agentId txHash =
     (case findOne st collaborationId of
        Inl e \<Rightarrow> (Inl e, st)
      | Inr found \<Rightarrow>
         (let agt = productService_findOne st agentId;
              vote = \<lparr>entity_id = nextVoteId st,
                      collaboration = map_option entity_id found,
                      agent = agt,
                      transactionHash = txHash,
                      votedAt = now,
                      signature = None\<rparr>;
              st1 = st\<lparr>votes := votes st @ [vote], nextVoteId := Suc (nextVoteId st)\<rparr>
          in case found of
               None \<Rightarrow> (Inl TypeError, st1)
             | Some c \<Rightarrow>
                 (let c1 = c\<lparr>votesReceived := votesReceived c + 1\<rparr>;
                      c2 = (if votesReceived c1 = requiredVotes c1 then c1\<lparr>status := VOTING\<rparr> else c1)
                  in (Inr vote, save_Collaboration st1 c2))))"

definition updateTokenLaunch ::
  "store \<Rightarrow> string \<Rightarrow> string \<Rightarrow> string \<Rightarrow> string \<Rightarrow> (js_error + Collaboration) \<times> store" where
  "updateTokenLaunch st q tAddress tName tSymbol =
     (case findByQuorumId st q of
        None \<Rightarrow> (Inl TypeError, st)
      | Some c \<Rightarrow>
          (let c' = c\<lparr>tokenAddress := Some tAddress,
                      tokenName := Some tName,
                      tokenSymbol := Some tSymbol,
                      status := ACTIVE\<rparr>
           in (Inr c', save_Collaboration st c')))"

text \<open>
  \<open>updateMarketCap\<close> assigns the string it is given and saves. The column is
  \<open>decimal(18,8)\<close>: the database stores the number with 8 decimals and refuses a string
  that is no number or is out of range. What the database makes of the string is the
  argument \<open>stored\<close> (\<open>None\<close> when it refuses); the method returns the entity it saved.
\<close>

definition updateMarketCap ::
  "store \<Rightarrow> string \<Rightarrow> string \<Rightarrow> string option \<Rightarrow> (js_error + Collaboration) \<times> store" where
  "updateMarketCap st tAddress cap stored =
     (case findByTokenAddress st tAddress of
        None \<Rightarrow> (Inl TypeError, st)
      | Some c \<Rightarrow>
          (case stored of
             None \<Rightarrow> (Inl SaveRejected, st)
           | Some d \<Rightarrow> (Inr (c\<lparr>marketCap := cap\<rparr>), save_Collaboration st (c\<lparr>marketCap := d\<rparr>))))"

text \<open>
  \<open>markGraduated\<close>: between the three assignments and the save the source recomputes the
  success rate of every agent of the collaboration and writes it to custom fields of the
  \<open>Product\<close> rows. That loop touches neither repository of this store and is left out.
\<close>

definition markGraduated ::
  "store \<Rightarrow> Date \<Rightarrow> string \<Rightarrow> (js_error + Collaboration) \<times> store" where
  "markGraduated st now tAddress =
     (case findByTokenAddress st tAddress of
        None \<Rightarrow> (Inl TypeError, st)
      | Some c \<Rightarrow>
          (let c' = c\<lparr>graduated := True, graduatedAt := Some now, status := COMPLETED\<rparr>
           in (Inr c', save_Collaboration st c')))"

text \<open>The mutations of the service as one step function, and runs of them.\<close>

datatype service_call =
    CreateCollaboration string "ID list"
  | RecordVote Date ID ID string
  | UpdateTokenLaunch string string string string
  | UpdateMarketCap string string "string option"
  | MarkGraduated Date string

fun service_step :: "store \<Rightarrow> service_call \<Rightarrow> store" where
  "service_step st (CreateCollaboration q agentIds) = snd (createCollaboration st q agentIds)"
| "service_step st (RecordVote now c a h) = snd (recordVote st now c a h)"
| "service_step st (UpdateTokenLaunch q a n s) = snd (updateTokenLaunch st q a n s)"
| "service_step st (UpdateMarketCap a m d) = snd (updateMarketCap st a m d)"
| "service_step st (MarkGraduated now a) = snd (markGraduated st now a)"

definition service_run :: "store \<Rightarrow> service_call list \<Rightarrow> store" where
  "service_run st cs = foldl service_step st cs"

text \<open>The votes recorded for a collaboration, and the distinct agents among them.\<close>

definition votesFor :: "store \<Rightarrow> ID \<Rightarrow> Vote list" where
  "votesFor st i = filter (\<lambda>v. collaboration v = Some i) (votes st)"

definition distinctVoters :: "store \<Rightarrow> ID \<Rightarrow> Product option list" where
  "distinctVoters st i = remdups (map agent (votesFor st i))"


section \<open>The bonding-curve token (Solidity, contracts/core/BondingCurve.sol)\<close>

text \<open>
  The contract is compiled with Solidity 0.8: every \<open>+\<close>, \<open>-\<close> and \<open>*\<close> on \<open>uint256\<close>
  is checked and reverts with an arithmetic panic when the result leaves
  \<open>0 .. 2^256 - 1\<close>; division by zero panics as well. Values are natural numbers and each
  operation of the source is one of the checked operations below. A call that reverts
  returns \<open>Inl\<close> and leaves no state behind: the caller keeps the state it had.
\<close>

type_synonym address = nat

datatype sol_error = Revert string | Panic | ExternalRevert

definition MAX_UINT256 :: nat where
  "MAX_UINT256 = 2 ^ 256 - 1"

definition checked_add :: "nat \<Rightarrow> nat \<Rightarrow> sol_error + nat" where
  "checked_add a b = (if a + b \<le> MAX_UINT256 then Inr (a + b) else Inl Panic)"

definition checked_sub :: "nat \<Rightarrow> nat \<Rightarrow> sol_error + nat" where
  "checked_sub a b = (if b \<le> a then Inr (a - b) else Inl Panic)"

definition checked_mul :: "nat \<Rightarrow> nat \<Rightarrow> sol_error + nat" where
  "checked_mul a b = (if a * b \<le> MAX_UINT256 then Inr (a * b) else Inl Panic)"

definition checked_div :: "nat \<Rightarrow> nat \<Rightarrow> sol_error + nat" where
  "checked_div a b = (if b = 0 then Inl Panic else Inr (a div b))"

text \<open>Sequencing: the first revert ends the call.\<close>

definition bindE :: "sol_error + 'a \<Rightarrow> ('a \<Rightarrow> sol_error + 'b) \<Rightarrow> sol_error + 'b" where
  "bindE m f = (case m of Inl e \<Rightarrow> Inl e | Inr v \<Rightarrow> f v)"

definition GRADUATION_THRESHOLD :: nat where
  "GRADUATION_THRESHOLD = 10 * 10 ^ 18"

definition INITIAL_PRICE :: nat where
  "INITIAL_PRICE = 10 ^ 13"

definition PRICE_INCREMENT :: nat where
  "PRICE_INCREMENT = 1"

definition PLATFORM_FEE_BPS :: nat where
  "PLATFORM_FEE_BPS = 3000"

definition AGENT_FEE_BPS :: nat where
  "AGENT_FEE_BPS = 1000"

definition LIQUIDITY_BPS :: nat where
  "LIQUIDITY_BPS = 6000"

definition BPS_DIVISOR :: nat where
  "BPS_DIVISOR = 10000"

definition WETH :: address where
  "WETH = 0x4200000000000000000000000000000000000006"

datatype event =
    TokensPurchased address nat nat nat
  | TokensSold address nat nat nat
  | Graduated address nat nat
  | FeesDistributed nat nat nat

record FeeRecipients =
  platform :: address
  agentTreasury :: address

text \<open>
  The storage of the contract, with the two pieces of inherited ERC20 storage the contract
  uses (\<open>totalSupply\<close>, \<open>balanceOf\<close>), its own address \<open>self\<close> (\<open>address(this)\<close>), its ether
  balance \<open>balance\<close> (\<open>address(this).balance\<close>) and the log of emitted events. Token name,
  symbol and allowances are not modelled.
\<close>

record BondingCurveToken =
  feeRecipients :: FeeRecipients
  quorumMembers :: "address list"
  isQuorumMember :: "address \<Rightarrow> bool"
  totalETHRaised :: nat
  liquidityReserve :: nat
  graduated :: bool
  uniswapV2Router :: address
  uniswapV2Pair :: address
  proposalId :: nat
  totalSupply :: nat
  balanceOf :: "address \<Rightarrow> nat"
  self :: address
  balance :: nat
  events :: "event list"

text \<open>
  What the world outside does during one call: whether the low-level ether transfer of the
  call is accepted by its recipient, whether the Uniswap router and factory calls go
  through, the pair address the factory returns, and what the platform recipient does with
  the control it gets when \<open>buy\<close> pays it.

  \<open>buy\<close> pays the platform fee before it writes \<open>liquidityReserve\<close> and
  \<open>totalETHRaised\<close>, so code run by the recipient sees the ether of the purchase in the
  balance and the counters of the state before. Of the external functions it can call,
  \<open>buy\<close> and \<open>sell\<close> revert under the reentrancy guard and \<open>graduate\<close> reverts below the
  threshold; a plain ether transfer or a token transfer has the effect it would have had
  before the purchase. \<open>claimAgentFees\<close> carries no guard and computes the claimable amount
  from the balance: \<open>platformCallback\<close> lists the claims made during the platform fee
  transfer, each with the claiming quorum member and whether that member accepts the ether.
  At the other external calls (to the seller, to the claimant, to Uniswap) every storage write
  of the function has been made before the call.
\<close>

record ext =
  callSuccess :: bool
  routerSuccess :: bool
  pair :: address
  platformCallback :: "(bool \<times> address) list"

definition constructor ::
  "address \<Rightarrow> address list \<Rightarrow> address \<Rightarrow> address \<Rightarrow> nat \<Rightarrow> sol_error + BondingCurveToken" where
  "constructor this members platformFeeRecipient router pid =
     (if \<not> (3 \<le> length members \<and> length members \<le> 5) then Inl (Revert ''Invalid quorum size'')
      else if \<not> platformFeeRecipient \<noteq> 0 then Inl (Revert ''Invalid platform address'')
      else if \<not> router \<noteq> 0 then Inl (Revert ''Invalid router address'')
      else Inr \<lparr>feeRecipients = \<lparr>platform = platformFeeRecipient, agentTreasury = this\<rparr>,
                quorumMembers = members,
                isQuorumMember = foldl (\<lambda>m a. m(a := True)) (\<lambda>_. False) members,
                totalETHRaised = 0,
                liquidityReserve = 0,
                graduated = False,
                uniswapV2Router = router,
                uniswapV2Pair = 0,
                proposalId = pid,
                totalSupply = 0,
                balanceOf = (\<lambda>_. 0),
                self = this,
                balance = 0,
                events = []\<rparr>)"

text \<open>
  \<open>_mint\<close>, \<open>_burn\<close> and \<open>transfer\<close> are inherited from OpenZeppelin's ERC20 (version 4,
  the one that ships \<open>security/ReentrancyGuard.sol\<close>), which is a dependency and not part
  of the repository; they are written here after that library.
\<close>

definition mint :: "BondingCurveToken \<Rightarrow> address \<Rightarrow> nat \<Rightarrow> sol_error + BondingCurveToken" where
  "mint s account amount =
     (if account = 0 then Inl (Revert ''ERC20: mint to the zero address'')
      else bindE (checked_add (totalSupply s) amount) (\<lambda>ts.
           Inr (s\<lparr>totalSupply := ts,
                  balanceOf := (balanceOf s)(account := balanceOf s account + amount)\<rparr>)))"

definition burn :: "BondingCurveToken \<Rightarrow> address \<Rightarrow> nat \<Rightarrow> sol_error + BondingCurveToken" where
  "burn s account amount =
     (if account = 0 then Inl (Revert ''ERC20: burn from the zero address'')
      else if \<not> amount \<le> balanceOf s account then Inl (Revert ''ERC20: burn amount exceeds balance'')
      else Inr (s\<lparr>balanceOf := (balanceOf s)(account := balanceOf s account - amount),
                  totalSupply := totalSupply s - amount\<rparr>))"

definition transfer ::
  "BondingCurveToken \<Rightarrow> address \<Rightarrow> address \<Rightarrow> nat \<Rightarrow> sol_error + BondingCurveToken" where
  "transfer s sender recipient amount =
     (if sender = 0 then Inl (Revert ''ERC20: transfer from the zero address'')
      else if recipient = 0 then Inl (Revert ''ERC20: transfer to the zero address'')
      else if \<not> amount \<le> balanceOf s sender then Inl (Revert ''ERC20: transfer amount exceeds balance'')
      else Inr (s\<lparr>balanceOf :=
                    (let b = (balanceOf s)(sender := balanceOf s sender - amount)
                     in b(recipient := b recipient + amount))\<rparr>))"

definition getCurrentPrice :: "BondingCurveToken \<Rightarrow> sol_error + nat" where
  "getCurrentPrice s =
     (let supply = totalSupply s
      in bindE (checked_mul (supply div 10 ^ 18) PRICE_INCREMENT) (\<lambda>m.
         checked_add INITIAL_PRICE m))"

definition calculatePurchaseReturn :: "BondingCurveToken \<Rightarrow> nat \<Rightarrow> sol_error + nat" where
  "calculatePurchaseReturn s ethAmount =
     (if ethAmount = 0 then Inr 0
      else bindE (getCurrentPrice s) (\<lambda>currentPrice.
           bindE (checked_mul ethAmount (10 ^ 18)) (\<lambda>n.
           bindE (checked_div n currentPrice) (\<lambda>tokenAmount.
           Inr tokenAmount))))"

definition calculateSaleReturn :: "BondingCurveToken \<Rightarrow> nat \<Rightarrow> sol_error + nat" where
  "calculateSaleReturn s tokenAmount =
     (if tokenAmount = 0 then Inr 0
      else if \<not> tokenAmount \<le> totalSupply s then Inl (Revert ''Exceeds supply'')
      else bindE (getCurrentPrice s) (\<lambda>currentPrice.
           bindE (checked_mul tokenAmount currentPrice) (\<lambda>n.
           bindE (checked_div n (10 ^ 18)) (\<lambda>ethAmount.
           Inr (if ethAmount > liquidityReserve s then liquidityReserve s else ethAmount)))))"

text \<open>
  \<open>_graduate\<close>. The factory lookup, \<open>createPair\<close> and \<open>addLiquidityETH\<close> are calls into
  Uniswap; when one of them reverts the whole call reverts. \<open>addLiquidityETH\<close> is sent
  \<open>liquidityETH\<close> wei and so also reverts when the contract holds less.
\<close>

definition graduate_internal :: "ext \<Rightarrow> BondingCurveToken \<Rightarrow> sol_error + BondingCurveToken" where
  "graduate_internal x s =
     (if \<not> \<not> graduated s then Inl (Revert ''Already graduated'')
      else if \<not> totalETHRaised s \<ge> GRADUATION_THRESHOLD then Inl (Revert ''Threshold not reached'')
      else (let s1 = s\<lparr>graduated := True\<rparr>
            in if \<not> routerSuccess x then Inl ExternalRevert
               else (let s2 = s1\<lparr>uniswapV2Pair := pair x\<rparr>;
                         liquidityETH = liquidityReserve s2;
                         liquidityTokens = totalSupply s2 div 2
                     in bindE (mint s2 (self s2) liquidityTokens) (\<lambda>s3.
                        if \<not> liquidityETH \<le> balance s3 then Inl ExternalRevert
                        else Inr (s3\<lparr>balance := balance s3 - liquidityETH,
                                     events := events s3 @
                                       [Graduated (uniswapV2Pair s3) liquidityETH liquidityTokens]\<rparr>)))))"

definition claimAgentFees :: "ext \<Rightarrow> BondingCurveToken \<Rightarrow> address \<Rightarrow> sol_error + BondingCurveToken" where
  "claimAgentFees x s sender =
     (if \<not> isQuorumMember s sender then Inl (Revert ''Not a quorum member'')
      else bindE (checked_sub (balance s) (liquidityReserve s)) (\<lambda>totalAgentFees.
        if \<not> totalAgentFees > 0 then Inl (Revert ''No fees to claim'')
        else bindE (checked_div totalAgentFees (length (quorumMembers s))) (\<lambda>feePerAgent.
          if \<not> feePerAgent > 0 then Inl (Revert ''Insufficient fees'')
          else if \<not> callSuccess x then Inl (Revert ''Fee transfer failed'')
          else Inr (s\<lparr>balance := balance s - feePerAgent\<rparr>))))"

text \<open>
  A claim made while the platform recipient holds control: when it reverts it leaves no trace
  and the purchase goes on.
\<close>

definition claim_during_call :: "ext \<Rightarrow> BondingCurveToken \<Rightarrow> bool \<times> address \<Rightarrow> BondingCurveToken" where
  "claim_during_call x s c =
     (case claimAgentFees (x\<lparr>callSuccess := fst c\<rparr>) s (snd c) of Inl e \<Rightarrow> s | Inr s' \<Rightarrow> s')"

definition buy :: "ext \<Rightarrow> BondingCurveToken \<Rightarrow> address \<Rightarrow> nat \<Rightarrow> sol_error + BondingCurveToken" where
  "buy x s sender msg_value =
     (if \<not> \<not> graduated s then Inl (Revert ''Already graduated'')
      else if \<not> msg_value > 0 then Inl (Revert ''Must send ETH'')
      else bindE (calculatePurchaseReturn s msg_value) (\<lambda>tokenAmount.
        if \<not> tokenAmount > 0 then Inl (Revert ''Invalid token amount'')
        else bindE (checked_mul msg_value PLATFORM_FEE_BPS) (\<lambda>pm.
             bindE (checked_div pm BPS_DIVISOR) (\<lambda>platformFee.
             bindE (checked_mul msg_value AGENT_FEE_BPS) (\<lambda>am.
             bindE (checked_div am BPS_DIVISOR) (\<lambda>agentFee.
             bindE (checked_sub msg_value platformFee) (\<lambda>rest.
             bindE (checked_sub rest agentFee) (\<lambda>liquidityAmount.
             if \<not> callSuccess x then Inl (Revert ''Platform fee transfer failed'')
             else (let paid = foldl (claim_during_call x)
                                (s\<lparr>balance := balance s + msg_value - platformFee\<rparr>)
                                (platformCallback x)
                   in bindE (checked_add (liquidityReserve paid) liquidityAmount) (\<lambda>lr.
                      bindE (checked_add (totalETHRaised paid) msg_value) (\<lambda>raised.
                      bindE (mint (paid\<lparr>liquidityReserve := lr,
                                         totalETHRaised := raised\<rparr>) sender tokenAmount) (\<lambda>s1.
                      bindE (getCurrentPrice s1) (\<lambda>newPrice.
                      (let s2 = s1\<lparr>events := events s1 @
                                     [TokensPurchased sender msg_value tokenAmount newPrice,
                                      FeesDistributed platformFee agentFee liquidityAmount]\<rparr>
                       in if totalETHRaised s2 \<ge> GRADUATION_THRESHOLD \<and> \<not> graduated s2
                          then graduate_internal x s2
                          else Inr s2))))))))))))))"

definition sell :: "ext \<Rightarrow> BondingCurveToken \<Rightarrow> address \<Rightarrow> nat \<Rightarrow> sol_error + BondingCurveToken" where
  "sell x s sender tokenAmount =
     (if \<not> \<not> graduated s then Inl (Revert ''Already graduated - use Uniswap'')
      else if \<not> tokenAmount > 0 then Inl (Revert ''Must sell positive amount'')
      else if \<not> balanceOf s sender \<ge> tokenAmount then Inl (Revert ''Insufficient balance'')
      else bindE (calculateSaleReturn s tokenAmount) (\<lambda>ethAmount.
        if \<not> ethAmount > 0 then Inl (Revert ''Invalid ETH amount'')
        else if \<not> liquidityReserve s \<ge> ethAmount then Inl (Revert ''Insufficient liquidity'')
        else bindE (burn s sender tokenAmount) (\<lambda>s1.
             bindE (checked_sub (liquidityReserve s1) ethAmount) (\<lambda>lr.
             (let s2 = s1\<lparr>liquidityReserve := lr\<rparr>
              in if \<not> (callSuccess x \<and> ethAmount \<le> balance s2) then Inl (Revert ''ETH transfer failed'')
                 else (let s3 = s2\<lparr>balance := balance s2 - ethAmount\<rparr>
                       in bindE (getCurrentPrice s3) (\<lambda>newPrice.
                          Inr (s3\<lparr>events := events s3 @
                                 [TokensSold sender tokenAmount ethAmount newPrice]\<rparr>))))))))"

definition graduate :: "ext \<Rightarrow> BondingCurveToken \<Rightarrow> sol_error + BondingCurveToken" where
  "graduate x s =
     (if \<not> \<not> graduated s then Inl (Revert ''Already graduated'')
      else if \<not> totalETHRaised s \<ge> GRADUATION_THRESHOLD then Inl (Revert ''Threshold not reached'')
      else graduate_internal x s)"

definition receive :: "BondingCurveToken \<Rightarrow> nat \<Rightarrow> sol_error + BondingCurveToken" where
  "receive s msg_value = Inr (s\<lparr>balance := balance s + msg_value\<rparr>)"

text \<open>
  The external entry points as transactions. A transaction that reverts changes nothing;
  \<open>run\<close> applies a list of transactions, each with the answers of the outside world.
\<close>

datatype call =
    Buy address nat
  | Sell address nat
  | Graduate
  | ClaimAgentFees address
  | Receive nat
  | Transfer address address nat

fun exec :: "ext \<Rightarrow> BondingCurveToken \<Rightarrow> call \<Rightarrow> sol_error + BondingCurveToken" where
  "exec x s (Buy sender v) = buy x s sender v"
| "exec x s (Sell sender n) = sell x s sender n"
| "exec x s Graduate = graduate x s"
| "exec x s (ClaimAgentFees sender) = claimAgentFees x s sender"
| "exec x s (Receive v) = receive s v"
| "exec x s (Transfer sender recipient n) = transfer s sender recipient n"

definition transact :: "BondingCurveToken \<Rightarrow> ext \<times> call \<Rightarrow> BondingCurveToken" where
  "transact s xc = (case exec (fst xc) s (snd xc) of Inl e \<Rightarrow> s | Inr s' \<Rightarrow> s')"

definition run :: "BondingCurveToken \<Rightarrow> (ext \<times> call) list \<Rightarrow> BondingCurveToken" where
  "run s xcs = foldl transact s xcs"

text \<open>How often the graduation routine has completed: the \<open>Graduated\<close> events in the log.\<close>

fun isGraduated :: "event \<Rightarrow> bool" where
  "isGraduated (Graduated p e t) = True"
| "isGraduated _ = False"

definition graduations :: "BondingCurveToken \<Rightarrow> nat" where
  "graduations s = length (filter isGraduated (events s))"

text \<open>
  The state right after the accounting, the mint and the two events of a successful \<open>buy\<close>
  of \<open>v\<close> wei that mints \<open>tok\<close> tokens and reports the price \<open>p\<close>, before the graduation
  check, when nothing was claimed during the platform fee transfer.
\<close>

definition bought :: "BondingCurveToken \<Rightarrow> address \<Rightarrow> nat \<Rightarrow> nat \<Rightarrow> nat \<Rightarrow> BondingCurveToken" where
  "bought s a v tok p =
     s\<lparr>balance := balance s + v - v * 3000 div 10000,
       liquidityReserve := liquidityReserve s + (v - v * 3000 div 10000 - v * 1000 div 10000),
       totalETHRaised := totalETHRaised s + v,
       totalSupply := totalSupply s + tok,
       balanceOf := (balanceOf s)(a := balanceOf s a + tok),
       events := events s @ [TokensPurchased a v tok p,
                  FeesDistributed (v * 3000 div 10000) (v * 1000 div 10000)
                     (v - v * 3000 div 10000 - v * 1000 div 10000)]\<rparr>"

text \<open>
  The same state when claims during the platform fee transfer have left the balance \<open>b\<close>.
\<close>

definition purchased ::
  "nat \<Rightarrow> BondingCurveToken \<Rightarrow> address \<Rightarrow> nat \<Rightarrow> nat \<Rightarrow> nat \<Rightarrow> BondingCurveToken" where
  "purchased b s a v tok p =
     s\<lparr>balance := b,
       liquidityReserve := liquidityReserve s + (v - v * 3000 div 10000 - v * 1000 div 10000),
       totalETHRaised := totalETHRaised s + v,
       totalSupply := totalSupply s + tok,
       balanceOf := (balanceOf s)(a := balanceOf s a + tok),
       events := events s @ [TokensPurchased a v tok p,
                  FeesDistributed (v * 3000 div 10000) (v * 1000 div 10000)
                     (v - v * 3000 div 10000 - v * 1000 div 10000)]\<rparr>"

text \<open>
  The invariant of the contract state that every transaction preserves, whatever is claimed
  during a platform fee transfer.
\<close>

definition curve_inv :: "BondingCurveToken \<Rightarrow> bool" where
  "curve_inv s \<longleftrightarrow>
     liquidityReserve s \<le> totalETHRaised s
   \<and> (graduated s \<longleftrightarrow> GRADUATION_THRESHOLD \<le> totalETHRaised s)
   \<and> graduations s = (if graduated s then 1 else 0)
   \<and> (\<not> graduated s \<longrightarrow> totalSupply s \<le> totalETHRaised s * 10 ^ 5)
   \<and> isQuorumMember s = (\<lambda>a. a \<in> set (quorumMembers s))
   \<and> 3 \<le> length (quorumMembers s) \<and> length (quorumMembers s) \<le> 5"







text \<open>
  The ether one call can carry is bounded by the ether there is, which is below \<open>2^87\<close> wei;
  \<open>ETHER_LIMIT\<close> is a generous bound on it, and \<open>SUPPLY_LIMIT\<close> is the token supply that
  purchases within that bound can reach.
\<close>

definition ETHER_LIMIT :: nat where
  "ETHER_LIMIT = 2 ^ 128"

fun within_limit :: "ext \<times> call \<Rightarrow> bool" where
  "within_limit (x, Buy sender v) = (v \<le> ETHER_LIMIT)"
| "within_limit (x, c) = True"

definition SUPPLY_LIMIT :: nat where
  "SUPPLY_LIMIT = (10 ^ 24 + ETHER_LIMIT * 10 ^ 5) + (10 ^ 24 + ETHER_LIMIT * 10 ^ 5) div 2"

text \<open>
  A concrete deployment for the examples: the contract at address 77 with the quorum
  \<open>[1, 2, 3]\<close>, and an outside world in which every transfer and every Uniswap call succeeds and the
  platform recipient claims nothing.
\<close>

definition demo_token :: BondingCurveToken where
  "demo_token = \<lparr>feeRecipients = \<lparr>platform = 50, agentTreasury = 77\<rparr>,
                quorumMembers = [1, 2, 3],
                isQuorumMember = foldl (\<lambda>m a. m(a := True)) (\<lambda>_. False) [1, 2, 3],
                totalETHRaised = 0,
                liquidityReserve = 0,
                graduated = False,
                uniswapV2Router = 60,
                uniswapV2Pair = 0,
                proposalId = 7,
                totalSupply = 0,
                balanceOf = (\<lambda>_. 0),
                self = 77,
                balance = 0,
                events = []\<rparr>"

definition world :: ext where
  "world = \<lparr>callSuccess = True, routerSuccess = True, pair = 88, platformCallback = []\<rparr>"

section \<open>Properties of the collaboration service\<close>

subsection \<open>Lookups and saves\<close>

lemma find_after_save:
  assumes "find P xs = Some c" "P c'" "entity_id c' = entity_id c"
  shows "find P (map (\<lambda>d. if entity_id d = entity_id c then c' else d) xs) = Some c'"
  using assms by (induction xs) (auto split: if_splits)

lemma find_Some_mem: "find P xs = Some c \<Longrightarrow> c \<in> set xs \<and> P c"
  by (induction xs) (auto split: if_splits)

lemma findBy_after_save:
  assumes "find P (collaborations st) = Some c" "P c'" "entity_id c' = entity_id c"
  shows "find P (collaborations (save_Collaboration st c')) = Some c'"
  using find_after_save[OF assms] by (simp add: save_Collaboration_def assms(3))

text \<open>The lookup by id names the undeclared relation \<open>votes\<close> and is rejected.\<close>

lemma findOne_rejects: "findOne st i = Inl RelationNotFound"
  by (simp add: findOne_def repository_findOne_def Collaboration_relations_def)

lemma recordVote_rejects: "recordVote st now cid aid h = (Inl RelationNotFound, st)"
  by (simp add: recordVote_def findOne_rejects)

lemmas svc_defs = service_run_def createCollaboration_def recordVote_rejects updateTokenLaunch_def
  updateMarketCap_def markGraduated_def findByQuorumId_def findByTokenAddress_def
  productService_findOne_def save_Collaboration_def empty_store_def Let_def votesFor_def
  distinctVoters_def

subsection \<open>The store never holds a vote\<close>










subsection \<open>Vote counting\<close>



subsection \<open>Vote admission\<close>

text \<open>
  C2, at the input where the code departs from it: a collaboration of the agents 1, 2, 3
  exists, no vote is recorded, and agent 1 votes with a fresh transaction hash. The call
  does not create a \<open>Vote\<close> and does not increment \<open>votesReceived\<close>: it is rejected by the
  lookup of the collaboration, and the store is left as it was.
\<close>

theorem recordVote_rejects_first_vote:
  "map entity_id (collaborations (service_run (empty_store [1, 2, 3])
      [CreateCollaboration ''quorum-1'' [1, 2, 3]])) = [1]
   \<and> agents (hd (collaborations (service_run (empty_store [1, 2, 3])
      [CreateCollaboration ''quorum-1'' [1, 2, 3]]))) = [Some 1, Some 2, Some 3]
   \<and> votes (service_run (empty_store [1, 2, 3]) [CreateCollaboration ''quorum-1'' [1, 2, 3]]) = []
   \<and> fst (recordVote (service_run (empty_store [1, 2, 3])
      [CreateCollaboration ''quorum-1'' [1, 2, 3]]) 10 1 1 ''0x123'') = Inl RelationNotFound
   \<and> snd (recordVote (service_run (empty_store [1, 2, 3])
      [CreateCollaboration ''quorum-1'' [1, 2, 3]]) 10 1 1 ''0x123'')
       = service_run (empty_store [1, 2, 3]) [CreateCollaboration ''quorum-1'' [1, 2, 3]]
   \<and> map votesReceived (collaborations (snd (recordVote (service_run (empty_store [1, 2, 3])
      [CreateCollaboration ''quorum-1'' [1, 2, 3]]) 10 1 1 ''0x123''))) = [0]"
  by (simp add: svc_defs)

subsection \<open>The gate from Pending to Voting\<close>


subsection \<open>Token launch\<close>

text \<open>
  C6 (amended). \<open>updateTokenLaunch\<close> fails only when no collaboration has the quorum id.
  Otherwise it returns the collaboration with token address, name and symbol set to the
  values of this call and status Active, whatever was stored before, and that is what the
  store then holds: the token identity is that of the latest launch event.
\<close>

theorem updateTokenLaunch_overwrites:
  "(findByQuorumId st q = None \<longrightarrow> updateTokenLaunch st q a n s = (Inl TypeError, st))
 \<and> (\<forall>c. findByQuorumId st q = Some c \<longrightarrow>
      fst (updateTokenLaunch st q a n s) =
        Inr (c\<lparr>tokenAddress := Some a, tokenName := Some n, tokenSymbol := Some s, status := ACTIVE\<rparr>)
    \<and> findByQuorumId (snd (updateTokenLaunch st q a n s)) q =
        Some (c\<lparr>tokenAddress := Some a, tokenName := Some n, tokenSymbol := Some s, status := ACTIVE\<rparr>))"
proof (intro conjI allI impI)
  assume "findByQuorumId st q = None"
  then show "updateTokenLaunch st q a n s = (Inl TypeError, st)"
    by (simp add: updateTokenLaunch_def)
next
  fix c assume c: "findByQuorumId st q = Some c"
  then show "fst (updateTokenLaunch st q a n s) =
        Inr (c\<lparr>tokenAddress := Some a, tokenName := Some n, tokenSymbol := Some s, status := ACTIVE\<rparr>)"
    by (simp add: updateTokenLaunch_def Let_def)
  from c have f: "find (\<lambda>c. quorumId c = q) (collaborations st) = Some c"
    by (simp add: findByQuorumId_def)
  then have "quorumId c = q" by (auto dest: find_Some_mem)
  with c findBy_after_save[OF f, of "c\<lparr>tokenAddress := Some a, tokenName := Some n,
      tokenSymbol := Some s, status := ACTIVE\<rparr>"]
  show "findByQuorumId (snd (updateTokenLaunch st q a n s)) q =
        Some (c\<lparr>tokenAddress := Some a, tokenName := Some n, tokenSymbol := Some s, status := ACTIVE\<rparr>)"
    by (simp add: updateTokenLaunch_def Let_def findByQuorumId_def)
qed


text \<open>
  An unknown quorum id, and a second launch for a collaboration that has a token.
\<close>

theorem updateTokenLaunch_overwrites_witness:
  "findByQuorumId (service_run (empty_store [1, 2, 3])
      [CreateCollaboration ''q1'' [1, 2, 3], UpdateTokenLaunch ''q1'' ''0xT1'' ''One'' ''ONE'']) ''q9'' = None
   \<and> updateTokenLaunch (service_run (empty_store [1, 2, 3])
      [CreateCollaboration ''q1'' [1, 2, 3], UpdateTokenLaunch ''q1'' ''0xT1'' ''One'' ''ONE''])
        ''q9'' ''0xT2'' ''Two'' ''TWO'' =
       (Inl TypeError, service_run (empty_store [1, 2, 3])
      [CreateCollaboration ''q1'' [1, 2, 3], UpdateTokenLaunch ''q1'' ''0xT1'' ''One'' ''ONE''])
   \<and> findByQuorumId (service_run (empty_store [1, 2, 3])
      [CreateCollaboration ''q1'' [1, 2, 3], UpdateTokenLaunch ''q1'' ''0xT1'' ''One'' ''ONE'']) ''q1''
       = Some (hd (collaborations (service_run (empty_store [1, 2, 3])
      [CreateCollaboration ''q1'' [1, 2, 3], UpdateTokenLaunch ''q1'' ''0xT1'' ''One'' ''ONE''])))
   \<and> findByQuorumId (snd (updateTokenLaunch (service_run (empty_store [1, 2, 3])
      [CreateCollaboration ''q1'' [1, 2, 3], UpdateTokenLaunch ''q1'' ''0xT1'' ''One'' ''ONE''])
        ''q1'' ''0xT2'' ''Two'' ''TWO'')) ''q1'' =
       Some ((hd (collaborations (service_run (empty_store [1, 2, 3])
      [CreateCollaboration ''q1'' [1, 2, 3], UpdateTokenLaunch ''q1'' ''0xT1'' ''One'' ''ONE''])))
          \<lparr>tokenAddress := Some ''0xT2'', tokenName := Some ''Two'', tokenSymbol := Some ''TWO'',
           status := ACTIVE\<rparr>)"
proof -
  let ?st = "service_run (empty_store [1, 2, 3])
      [CreateCollaboration ''q1'' [1, 2, 3], UpdateTokenLaunch ''q1'' ''0xT1'' ''One'' ''ONE'']"
  have n: "findByQuorumId ?st ''q9'' = None" by (simp add: svc_defs)
  have s: "findByQuorumId ?st ''q1'' = Some (hd (collaborations ?st))" by (simp add: svc_defs)
  from updateTokenLaunch_overwrites[of ?st "''q9''" "''0xT2''" "''Two''" "''TWO''"] n
  have 1: "updateTokenLaunch ?st ''q9'' ''0xT2'' ''Two'' ''TWO'' = (Inl TypeError, ?st)" by blast
  from updateTokenLaunch_overwrites[of ?st "''q1''" "''0xT2''" "''Two''" "''TWO''"] s
  have 2: "findByQuorumId (snd (updateTokenLaunch ?st ''q1'' ''0xT2'' ''Two'' ''TWO'')) ''q1'' =
       Some ((hd (collaborations ?st))
          \<lparr>tokenAddress := Some ''0xT2'', tokenName := Some ''Two'', tokenSymbol := Some ''TWO'',
           status := ACTIVE\<rparr>)" by blast
  from n 1 s 2 show ?thesis by blast
qed


text \<open>
  C6 as stated fails: a second launch event with another address is not rejected, and the
  stored address, name and symbol are those of the second event.
\<close>

theorem token_identity_overwritten_counterexample:
  "map tokenAddress (collaborations (service_run (empty_store [1, 2, 3])
      [CreateCollaboration ''q1'' [1, 2, 3],
       UpdateTokenLaunch ''q1'' ''0xT1'' ''One'' ''ONE''])) = [Some ''0xT1'']
   \<and> fst (updateTokenLaunch (service_run (empty_store [1, 2, 3])
      [CreateCollaboration ''q1'' [1, 2, 3],
       UpdateTokenLaunch ''q1'' ''0xT1'' ''One'' ''ONE'']) ''q1'' ''0xT2'' ''Two'' ''TWO'') \<noteq> Inl TypeError
   \<and> map tokenAddress (collaborations (service_run (empty_store [1, 2, 3])
      [CreateCollaboration ''q1'' [1, 2, 3],
       UpdateTokenLaunch ''q1'' ''0xT1'' ''One'' ''ONE'',
       UpdateTokenLaunch ''q1'' ''0xT2'' ''Two'' ''TWO''])) = [Some ''0xT2'']
   \<and> map tokenName (collaborations (service_run (empty_store [1, 2, 3])
      [CreateCollaboration ''q1'' [1, 2, 3],
       UpdateTokenLaunch ''q1'' ''0xT1'' ''One'' ''ONE'',
       UpdateTokenLaunch ''q1'' ''0xT2'' ''Two'' ''TWO''])) = [Some ''Two'']
   \<and> map tokenSymbol (collaborations (service_run (empty_store [1, 2, 3])
      [CreateCollaboration ''q1'' [1, 2, 3],
       UpdateTokenLaunch ''q1'' ''0xT1'' ''One'' ''ONE'',
       UpdateTokenLaunch ''q1'' ''0xT2'' ''Two'' ''TWO''])) = [Some ''TWO'']"
  by (simp add: svc_defs)


subsection \<open>Graduation of a collaboration\<close>

text \<open>
  C9 (amended). \<open>markGraduated\<close> fails only when no collaboration has the token address.
  Otherwise it sets \<open>graduated\<close>, sets \<open>graduatedAt\<close> to the time of the call and the
  status to Completed. Applied again at a later time it returns the same collaboration with
  \<open>graduated\<close> and Completed as before and \<open>graduatedAt\<close> overwritten by the later time.
\<close>

theorem markGraduated_overwrites:
  "(findByTokenAddress st a = None \<longrightarrow> markGraduated st now a = (Inl TypeError, st))
 \<and> (\<forall>c. findByTokenAddress st a = Some c \<longrightarrow>
      fst (markGraduated st now a) =
        Inr (c\<lparr>Collaboration.graduated := True, graduatedAt := Some now, status := COMPLETED\<rparr>)
    \<and> findByTokenAddress (snd (markGraduated st now a)) a =
        Some (c\<lparr>Collaboration.graduated := True, graduatedAt := Some now, status := COMPLETED\<rparr>)
    \<and> fst (markGraduated (snd (markGraduated st now a)) later a) =
        Inr (c\<lparr>Collaboration.graduated := True, graduatedAt := Some later, status := COMPLETED\<rparr>))"
proof (intro conjI allI impI)
  assume "findByTokenAddress st a = None"
  then show "markGraduated st now a = (Inl TypeError, st)"
    by (simp add: markGraduated_def)
next
  fix c assume c: "findByTokenAddress st a = Some c"
  let ?c' = "c\<lparr>Collaboration.graduated := True, graduatedAt := Some now, status := COMPLETED\<rparr>"
  from c show 1: "fst (markGraduated st now a) = Inr ?c'"
    by (simp add: markGraduated_def Let_def)
  from c have f: "find (\<lambda>c. tokenAddress c = Some a) (collaborations st) = Some c"
    by (simp add: findByTokenAddress_def)
  then have "tokenAddress c = Some a" by (auto dest: find_Some_mem)
  with c findBy_after_save[OF f, of ?c']
  show 2: "findByTokenAddress (snd (markGraduated st now a)) a = Some ?c'"
    by (simp add: markGraduated_def Let_def findByTokenAddress_def)
  from 2 show "fst (markGraduated (snd (markGraduated st now a)) later a) =
        Inr (c\<lparr>Collaboration.graduated := True, graduatedAt := Some later, status := COMPLETED\<rparr>)"
    by (simp add: markGraduated_def[of "snd (markGraduated st now a)"] Let_def)
qed

text \<open>
  An unknown token address, and two graduation events for one collaboration.
\<close>

theorem markGraduated_overwrites_witness:
  "findByTokenAddress (service_run (empty_store [1, 2, 3])
      [CreateCollaboration ''q1'' [1, 2, 3], UpdateTokenLaunch ''q1'' ''0xT1'' ''One'' ''ONE'']) ''0xT9'' = None
   \<and> markGraduated (service_run (empty_store [1, 2, 3])
      [CreateCollaboration ''q1'' [1, 2, 3], UpdateTokenLaunch ''q1'' ''0xT1'' ''One'' ''ONE'']) 100 ''0xT9'' =
       (Inl TypeError, service_run (empty_store [1, 2, 3])
      [CreateCollaboration ''q1'' [1, 2, 3], UpdateTokenLaunch ''q1'' ''0xT1'' ''One'' ''ONE''])
   \<and> findByTokenAddress (service_run (empty_store [1, 2, 3])
      [CreateCollaboration ''q1'' [1, 2, 3], UpdateTokenLaunch ''q1'' ''0xT1'' ''One'' ''ONE'']) ''0xT1''
       = Some (hd (collaborations (service_run (empty_store [1, 2, 3])
      [CreateCollaboration ''q1'' [1, 2, 3], UpdateTokenLaunch ''q1'' ''0xT1'' ''One'' ''ONE''])))
   \<and> fst (markGraduated (snd (markGraduated (service_run (empty_store [1, 2, 3])
      [CreateCollaboration ''q1'' [1, 2, 3], UpdateTokenLaunch ''q1'' ''0xT1'' ''One'' ''ONE''])
        100 ''0xT1'')) 200 ''0xT1'') =
       Inr ((hd (collaborations (service_run (empty_store [1, 2, 3])
      [CreateCollaboration ''q1'' [1, 2, 3], UpdateTokenLaunch ''q1'' ''0xT1'' ''One'' ''ONE''])))
          \<lparr>Collaboration.graduated := True, graduatedAt := Some 200, status := COMPLETED\<rparr>)"
proof -
  let ?st = "service_run (empty_store [1, 2, 3])
      [CreateCollaboration ''q1'' [1, 2, 3], UpdateTokenLaunch ''q1'' ''0xT1'' ''One'' ''ONE'']"
  have n: "findByTokenAddress ?st ''0xT9'' = None" by (simp add: svc_defs)
  have s: "findByTokenAddress ?st ''0xT1'' = Some (hd (collaborations ?st))" by (simp add: svc_defs)
  from markGraduated_overwrites[of ?st "''0xT9''" 100] n
  have 1: "markGraduated ?st 100 ''0xT9'' = (Inl TypeError, ?st)" by blast
  from markGraduated_overwrites[of ?st "''0xT1''" 100 200] s
  have 2: "fst (markGraduated (snd (markGraduated ?st 100 ''0xT1'')) 200 ''0xT1'') =
       Inr ((hd (collaborations ?st))
          \<lparr>Collaboration.graduated := True, graduatedAt := Some 200, status := COMPLETED\<rparr>)" by blast
  from n 1 s 2 show ?thesis by blast
qed


text \<open>
  C9 as stated fails: the second graduation event replaces \<open>graduatedAt = 100\<close> of the
  first by 200.
\<close>

theorem graduatedAt_overwritten_counterexample:
  "map graduatedAt (collaborations (service_run (empty_store [1, 2, 3])
      [CreateCollaboration ''q1'' [1, 2, 3],
       UpdateTokenLaunch ''q1'' ''0xT1'' ''One'' ''ONE'',
       MarkGraduated 100 ''0xT1''])) = [Some 100]
   \<and> map status (collaborations (service_run (empty_store [1, 2, 3])
      [CreateCollaboration ''q1'' [1, 2, 3],
       UpdateTokenLaunch ''q1'' ''0xT1'' ''One'' ''ONE'',
       MarkGraduated 100 ''0xT1''])) = [COMPLETED]
   \<and> map graduatedAt (collaborations (service_run (empty_store [1, 2, 3])
      [CreateCollaboration ''q1'' [1, 2, 3],
       UpdateTokenLaunch ''q1'' ''0xT1'' ''One'' ''ONE'',
       MarkGraduated 100 ''0xT1'',
       MarkGraduated 200 ''0xT1''])) = [Some 200]"
  by (simp add: svc_defs)

section \<open>Properties of the bonding-curve token\<close>

subsection \<open>Checked arithmetic and successful calls\<close>

lemma bindE_simps: "bindE (Inl e) f = Inl e" "bindE (Inr v) f = f v"
  by (simp_all add: bindE_def)

lemma bindE_Inr_iff: "bindE m f = Inr y \<longleftrightarrow> (\<exists>v. m = Inr v \<and> f v = Inr y)"
  by (cases m) (simp_all add: bindE_def)

lemma checked_add_Inr: "checked_add a b = Inr c \<longleftrightarrow> (c = a + b \<and> a + b \<le> MAX_UINT256)"
  by (auto simp: checked_add_def)

lemma checked_sub_Inr: "checked_sub a b = Inr c \<longleftrightarrow> (c = a - b \<and> b \<le> a)"
  by (auto simp: checked_sub_def)

lemma checked_mul_Inr: "checked_mul a b = Inr c \<longleftrightarrow> (c = a * b \<and> a * b \<le> MAX_UINT256)"
  by (auto simp: checked_mul_def)

lemma checked_div_Inr: "checked_div a b = Inr c \<longleftrightarrow> (c = a div b \<and> b \<noteq> 0)"
  by (auto simp: checked_div_def)

lemmas checked_Inr =
  bindE_Inr_iff checked_add_Inr checked_sub_Inr checked_mul_Inr checked_div_Inr

lemma getCurrentPrice_Inr:
  "getCurrentPrice s = Inr p \<Longrightarrow> p = INITIAL_PRICE + totalSupply s div 10 ^ 18"
  by (auto simp: getCurrentPrice_def Let_def checked_Inr PRICE_INCREMENT_def)

lemma mint_Inr:
  "mint s a n = Inr s' \<Longrightarrow>
     s' = s\<lparr>totalSupply := totalSupply s + n, balanceOf := (balanceOf s)(a := balanceOf s a + n)\<rparr>
     \<and> totalSupply s + n \<le> MAX_UINT256"
  by (auto simp: mint_def checked_Inr split: if_splits)

lemma graduate_internal_Inr:
  "graduate_internal x s = Inr s' \<Longrightarrow>
     \<not> graduated s \<and> GRADUATION_THRESHOLD \<le> totalETHRaised s \<and> liquidityReserve s \<le> balance s \<and>
     s' = s\<lparr>graduated := True, uniswapV2Pair := pair x,
            totalSupply := totalSupply s + totalSupply s div 2,
            balanceOf := (balanceOf s)(self s := balanceOf s (self s) + totalSupply s div 2),
            balance := balance s - liquidityReserve s,
            events := events s @ [Graduated (pair x) (liquidityReserve s) (totalSupply s div 2)]\<rparr>"
  by (auto simp: graduate_internal_def Let_def checked_Inr split: if_splits dest!: mint_Inr)

lemma claimAgentFees_Inr:
  assumes "claimAgentFees x s a = Inr s'"
  shows "isQuorumMember s a \<and> liquidityReserve s \<le> balance s \<and> callSuccess x
      \<and> 0 < (balance s - liquidityReserve s) div length (quorumMembers s)
      \<and> s' = s\<lparr>balance := balance s - (balance s - liquidityReserve s) div length (quorumMembers s)\<rparr>"
  using assms
  by (auto simp: claimAgentFees_def checked_Inr split: if_splits)

text \<open>Claims made during the platform fee transfer change the balance and nothing else.\<close>

lemma claim_during_call_balance:
  "\<exists>b. b \<le> balance s \<and> claim_during_call x s c = s\<lparr>balance := b\<rparr>"
proof (cases "claimAgentFees (x\<lparr>callSuccess := fst c\<rparr>) s (snd c)")
  case (Inl e)
  then have "balance s \<le> balance s \<and> claim_during_call x s c = s\<lparr>balance := balance s\<rparr>"
    by (simp add: claim_during_call_def)
  then show ?thesis by blast
next
  case (Inr s')
  let ?b = "balance s - (balance s - liquidityReserve s) div length (quorumMembers s)"
  from claimAgentFees_Inr[OF Inr] Inr
  have "?b \<le> balance s \<and> claim_during_call x s c = s\<lparr>balance := ?b\<rparr>"
    by (simp add: claim_during_call_def)
  then show ?thesis by blast
qed

lemma claims_during_call_balance:
  "\<exists>b. b \<le> balance s \<and> foldl (claim_during_call x) s cs = s\<lparr>balance := b\<rparr>"
proof (induction cs arbitrary: s)
  case Nil
  have "balance s \<le> balance s \<and> foldl (claim_during_call x) s [] = s\<lparr>balance := balance s\<rparr>"
    by simp
  then show ?case by blast
next
  case (Cons c cs)
  obtain b where b: "b \<le> balance s" "claim_during_call x s c = s\<lparr>balance := b\<rparr>"
    using claim_during_call_balance[of s x c] by blast
  obtain b' where b': "b' \<le> balance (s\<lparr>balance := b\<rparr>)"
      "foldl (claim_during_call x) (s\<lparr>balance := b\<rparr>) cs = s\<lparr>balance := b\<rparr>\<lparr>balance := b'\<rparr>"
    using Cons[of "s\<lparr>balance := b\<rparr>"] by blast
  from b b' have "b' \<le> balance s \<and> foldl (claim_during_call x) s (c # cs) = s\<lparr>balance := b'\<rparr>"
    by simp
  then show ?case by blast
qed

lemma buy_Inr:
  assumes "buy x s a v = Inr s'"
  shows "\<exists>tok p b. \<not> graduated s \<and> 0 < v \<and> 0 < tok \<and> callSuccess x
      \<and> calculatePurchaseReturn s v = Inr tok
      \<and> b \<le> balance s + v - v * 3000 div 10000
      \<and> (platformCallback x = [] \<longrightarrow> b = balance s + v - v * 3000 div 10000)
      \<and> (if GRADUATION_THRESHOLD \<le> totalETHRaised s + v
          then graduate_internal x (purchased b s a v tok p) = Inr s'
          else s' = purchased b s a v tok p)"
proof -
  have "\<forall>n. \<exists>b. b \<le> balance s + v - n
          \<and> (platformCallback x = [] \<longrightarrow> b = balance s + v - n)
          \<and> foldl (claim_during_call x) (s\<lparr>balance := balance s + v - n\<rparr>) (platformCallback x)
              = s\<lparr>balance := b\<rparr>"
  proof
    fix n
    show "\<exists>b. b \<le> balance s + v - n
          \<and> (platformCallback x = [] \<longrightarrow> b = balance s + v - n)
          \<and> foldl (claim_during_call x) (s\<lparr>balance := balance s + v - n\<rparr>) (platformCallback x)
              = s\<lparr>balance := b\<rparr>"
    proof (cases "platformCallback x = []")
      case True
      then show ?thesis by simp
    next
      case False
      with claims_during_call_balance[of "s\<lparr>balance := balance s + v - n\<rparr>" x "platformCallback x"]
      show ?thesis by auto
    qed
  qed
  then obtain b where b: "\<And>n. b n \<le> balance s + v - n"
      "\<And>n. platformCallback x = [] \<longrightarrow> b n = balance s + v - n"
      "\<And>n. foldl (claim_during_call x) (s\<lparr>balance := balance s + v - n\<rparr>) (platformCallback x)
              = s\<lparr>balance := b n\<rparr>"
    by metis
  from assms have "\<exists>tok p. \<not> graduated s \<and> 0 < v \<and> 0 < tok \<and> callSuccess x
      \<and> calculatePurchaseReturn s v = Inr tok
      \<and> (if GRADUATION_THRESHOLD \<le> totalETHRaised s + v
          then graduate_internal x (purchased (b (v * 3000 div 10000)) s a v tok p) = Inr s'
          else s' = purchased (b (v * 3000 div 10000)) s a v tok p)"
    apply (clarsimp simp: buy_def Let_def checked_Inr PLATFORM_FEE_BPS_def AGENT_FEE_BPS_def
      BPS_DIVISOR_def purchased_def b(3) split: if_splits dest!: mint_Inr)
    apply (rename_tac tok p)
    apply (rule_tac x=p in exI)
    apply (auto split: if_splits)
    done
  with b(1)[of "v * 3000 div 10000"] b(2)[of "v * 3000 div 10000"] show ?thesis
    by blast
qed

lemma bought_purchased: "bought s a v tok p = purchased (balance s + v - v * 3000 div 10000) s a v tok p"
  by (simp add: bought_def purchased_def)


lemma buy_counters:
  assumes "buy x s a v = Inr s'"
  shows "0 < v \<and> totalETHRaised s' = totalETHRaised s + v
     \<and> liquidityReserve s' = liquidityReserve s + (v - v * 3000 div 10000 - v * 1000 div 10000)
     \<and> (\<exists>tok p rest. events s' = events s @ [TokensPurchased a v tok p,
          FeesDistributed (v * 3000 div 10000) (v * 1000 div 10000)
             (v - v * 3000 div 10000 - v * 1000 div 10000)] @ rest)"
proof -
  from buy_Inr[OF assms] obtain tok p b where v: "0 < v" and
    s': "if GRADUATION_THRESHOLD \<le> totalETHRaised s + v
          then graduate_internal x (purchased b s a v tok p) = Inr s'
          else s' = purchased b s a v tok p"
    by blast
  show ?thesis
  proof (cases "GRADUATION_THRESHOLD \<le> totalETHRaised s + v")
    case True
    with s' have "graduate_internal x (purchased b s a v tok p) = Inr s'" by simp
    from graduate_internal_Inr[OF this] v show ?thesis by (simp add: purchased_def)
  next
    case False
    with s' v show ?thesis by (simp add: purchased_def)
  qed
qed

lemma calculatePurchaseReturn_Inr:
  assumes "calculatePurchaseReturn s v = Inr tok"
  shows "tok \<le> v * 10 ^ 5"
proof (cases "v = 0")
  case True
  with assms show ?thesis by (simp add: calculatePurchaseReturn_def)
next
  case False
  with assms obtain p where p: "getCurrentPrice s = Inr p" and tok: "tok = v * 10 ^ 18 div p"
    by (auto simp: calculatePurchaseReturn_def checked_Inr)
  from p have "10 ^ 13 \<le> p"
    by (auto dest!: getCurrentPrice_Inr simp: INITIAL_PRICE_def)
  then have "v * 10 ^ 18 div p \<le> v * 10 ^ 18 div 10 ^ 13"
    by (intro div_le_mono2) simp_all
  also have "\<dots> = v * 10 ^ 5" by simp
  finally show ?thesis using tok by simp
qed

lemma sell_Inr:
  assumes "sell x s a n = Inr s'"
  shows "\<exists>e p. \<not> graduated s \<and> 0 < n \<and> n \<le> balanceOf s a \<and> calculateSaleReturn s n = Inr e
      \<and> 0 < e \<and> e \<le> liquidityReserve s \<and> e \<le> balance s \<and> callSuccess x
      \<and> s' = s\<lparr>balanceOf := (balanceOf s)(a := balanceOf s a - n),
               totalSupply := totalSupply s - n,
               liquidityReserve := liquidityReserve s - e,
               balance := balance s - e,
               events := events s @ [TokensSold a n e p]\<rparr>"
  using assms
  by (auto simp: sell_def burn_def Let_def checked_Inr split: if_splits)

lemma sell_counters:
  assumes "sell x s a n = Inr s'"
  shows "totalETHRaised s' = totalETHRaised s
     \<and> (\<exists>e. calculateSaleReturn s n = Inr e \<and> e \<le> liquidityReserve s
              \<and> liquidityReserve s' = liquidityReserve s - e)"
  using sell_Inr[OF assms] by auto

lemma transfer_Inr:
  "transfer s a b n = Inr s' \<Longrightarrow>
     s' = s\<lparr>balanceOf := (balanceOf s)(a := balanceOf s a - n,
                                        b := ((balanceOf s)(a := balanceOf s a - n)) b + n)\<rparr>"
  by (auto simp: transfer_def Let_def split: if_splits)

subsection \<open>The invariant holds in every state reached from a deployment\<close>

lemma foldl_member: "foldl (\<lambda>m a. m(a := True)) f xs = (\<lambda>a. a \<in> set xs \<or> f a)"
  by (induction xs arbitrary: f) (auto simp: fun_eq_iff)

lemma constructor_inv:
  "constructor this members pf router pid = Inr s \<Longrightarrow> curve_inv s"
  by (auto simp: constructor_def curve_inv_def graduations_def GRADUATION_THRESHOLD_def foldl_member
      split: if_splits)

lemma buy_inv:
  assumes "curve_inv s" "buy x s a v = Inr s'"
  shows "curve_inv s'"
proof -
  from buy_Inr[OF assms(2)] obtain tok p b where
    ng: "\<not> graduated s" and tok: "calculatePurchaseReturn s v = Inr tok" and
    s': "if GRADUATION_THRESHOLD \<le> totalETHRaised s + v
          then graduate_internal x (purchased b s a v tok p) = Inr s'
          else s' = purchased b s a v tok p"
    by blast
  have le: "tok \<le> v * 10 ^ 5" by (rule calculatePurchaseReturn_Inr[OF tok])
  have fee: "v * 3000 div 10000 + v * 1000 div 10000 \<le> v" by simp
  show ?thesis
  proof (cases "GRADUATION_THRESHOLD \<le> totalETHRaised s + v")
    case True
    with s' have "graduate_internal x (purchased b s a v tok p) = Inr s'" by simp
    from graduate_internal_Inr[OF this] assms(1) ng True show ?thesis
      by (auto simp: curve_inv_def purchased_def graduations_def)
  next
    case False
    with s' have "s' = purchased b s a v tok p" by simp
    with assms(1) ng False le fee show ?thesis
      by (auto simp: curve_inv_def purchased_def graduations_def add_mult_distrib)
  qed
qed

lemma sell_inv:
  assumes "curve_inv s" "sell x s a n = Inr s'"
  shows "curve_inv s'"
proof -
  from sell_Inr[OF assms(2)] obtain e p where
    "\<not> graduated s" "e \<le> liquidityReserve s" "e \<le> balance s"
    "s' = s\<lparr>balanceOf := (balanceOf s)(a := balanceOf s a - n),
               totalSupply := totalSupply s - n,
               liquidityReserve := liquidityReserve s - e,
               balance := balance s - e,
               events := events s @ [TokensSold a n e p]\<rparr>"
    by blast
  with assms(1) show ?thesis
    by (auto simp: curve_inv_def graduations_def)
qed

lemma claimAgentFees_inv:
  assumes "curve_inv s" "claimAgentFees x s a = Inr s'"
  shows "curve_inv s'"
  using claimAgentFees_Inr[OF assms(2)] assms(1)
  by (auto simp: curve_inv_def graduations_def)

lemma graduate_inv:
  assumes "curve_inv s" "graduate x s = Inr s'"
  shows "curve_inv s'"
  using assms by (auto simp: curve_inv_def graduate_def split: if_splits)

lemma receive_inv:
  assumes "curve_inv s" "receive s v = Inr s'"
  shows "curve_inv s'"
  using assms by (auto simp: curve_inv_def receive_def graduations_def)

lemma transfer_inv:
  assumes "curve_inv s" "transfer s a b n = Inr s'"
  shows "curve_inv s'"
  using transfer_Inr[OF assms(2)] assms(1)
  by (simp add: curve_inv_def graduations_def)

lemma exec_inv:
  assumes "curve_inv s" "exec x s c = Inr s'"
  shows "curve_inv s'"
  using assms
  by (cases c) (auto intro: buy_inv sell_inv graduate_inv claimAgentFees_inv receive_inv transfer_inv)

lemma transact_inv: "curve_inv s \<Longrightarrow> curve_inv (transact s xc)"
  by (auto simp: transact_def split: sum.splits intro: exec_inv)

lemma run_inv: "curve_inv s \<Longrightarrow> curve_inv (run s xcs)"
  unfolding run_def by (induction xcs arbitrary: s) (simp_all add: transact_inv)

lemma reachable_inv:
  "constructor this members pf router pid = Inr s0 \<Longrightarrow> curve_inv (run s0 xcs)"
  by (rule run_inv[OF constructor_inv])

subsection \<open>Concrete runs\<close>

lemmas eval_defs = run_def transact_def buy_def sell_def graduate_internal_def graduate_def
  claim_during_call_def
  claimAgentFees_def receive_def transfer_def mint_def burn_def
  calculatePurchaseReturn_def calculateSaleReturn_def getCurrentPrice_def
  bindE_simps checked_add_def checked_sub_def checked_mul_def checked_div_def MAX_UINT256_def
  GRADUATION_THRESHOLD_def INITIAL_PRICE_def PRICE_INCREMENT_def PLATFORM_FEE_BPS_def
  AGENT_FEE_BPS_def BPS_DIVISOR_def world_def Let_def

lemma demo_constructed: "constructor 77 [1, 2, 3] 50 60 7 = Inr demo_token"
  by (simp add: constructor_def demo_token_def)

lemma demo_buy_1: "buy world demo_token 9 1 = Inr (bought demo_token 9 1 100000 (10 ^ 13))"
  by (simp add: eval_defs bought_def demo_token_def)

lemma demo_buy_20: "buy world demo_token 9 20 = Inr (bought demo_token 9 20 2000000 (10 ^ 13))"
  by (simp add: eval_defs bought_def demo_token_def)

lemma demo_run_20: "run demo_token [(world, Buy 9 20)] = bought demo_token 9 20 2000000 (10 ^ 13)"
  by (simp only: run_def transact_def foldl.simps fst_conv snd_conv exec.simps demo_buy_20 sum.case)



lemma demo_graduates: "graduated (run demo_token [(world, Buy 9 (10 ^ 19))])"
  by (simp add: eval_defs demo_token_def)

lemma demo_graduated_supply:
  "totalSupply (run demo_token [(world, Buy 9 (10 ^ 19))]) = 15 * 10 ^ 23"
  by (simp add: eval_defs demo_token_def)

lemma demo_graduated_reserve:
  "liquidityReserve (run demo_token [(world, Buy 9 (10 ^ 19))]) = 6 * 10 ^ 18"
  by (simp add: eval_defs demo_token_def)

lemma demo_buy_40:
  "buy world (bought demo_token 9 20 2000000 (10 ^ 13)) 9 40 =
     Inr (bought (bought demo_token 9 20 2000000 (10 ^ 13)) 9 40 4000000 (10 ^ 13))"
  by (simp add: eval_defs bought_def demo_token_def)

lemma demo_sell:
  "sell world (bought demo_token 9 20 2000000 (10 ^ 13)) 9 1000000 =
     Inr ((bought demo_token 9 20 2000000 (10 ^ 13))
           \<lparr>balanceOf := (\<lambda>_. 0)(9 := 1000000), totalSupply := 1000000,
            liquidityReserve := 2, balance := 4,
            events := events (bought demo_token 9 20 2000000 (10 ^ 13))
                        @ [TokensSold 9 1000000 10 (10 ^ 13)]\<rparr>)"
  by (simp add: eval_defs bought_def demo_token_def)


subsection \<open>Graduation\<close>

lemma buy_graduated: "graduated s \<Longrightarrow> buy x s a v = Inl (Revert ''Already graduated'')"
  by (simp add: buy_def)

lemma sell_graduated:
  "graduated s \<Longrightarrow> sell x s a n = Inl (Revert ''Already graduated - use Uniswap'')"
  by (simp add: sell_def)

lemma exec_graduated_mono:
  assumes "graduated s" "exec x s c = Inr s'"
  shows "graduated s'"
  using assms
  by (cases c)
     (auto simp: buy_def sell_def graduate_def receive_def dest!: claimAgentFees_Inr transfer_Inr)

lemma transact_graduated_mono: "graduated s \<Longrightarrow> graduated (transact s xc)"
  by (auto simp: transact_def split: sum.splits dest: exec_graduated_mono)

lemma run_graduated_mono: "graduated s \<Longrightarrow> graduated (run s xcs)"
  unfolding run_def by (induction xcs arbitrary: s) (simp_all add: transact_graduated_mono)

lemma transact_graduations:
  assumes "curve_inv s"
  shows "graduations (transact s (x, c)) = graduations s +
           (if totalETHRaised s < GRADUATION_THRESHOLD
               \<and> GRADUATION_THRESHOLD \<le> totalETHRaised (transact s (x, c)) then 1 else 0)"
proof -
  have i': "curve_inv (transact s (x, c))" by (rule transact_inv[OF assms])
  show ?thesis
  proof (cases "graduated s")
    case True
    then have "graduated (transact s (x, c))" by (rule transact_graduated_mono)
    with True assms i' show ?thesis by (simp add: curve_inv_def)
  next
    case False
    with assms i' show ?thesis by (auto simp: curve_inv_def)
  qed
qed

text \<open>
  C3. In every state reached from a deployment by any sequence of transactions, the
  graduation routine has completed at most once, and it has completed exactly when
  \<open>totalETHRaised\<close> has reached \<open>GRADUATION_THRESHOLD\<close>: a transaction adds a
  \<open>Graduated\<close> event exactly when it takes \<open>totalETHRaised\<close> from below the threshold to
  the threshold or above. Once \<open>graduated\<close> is set it stays set along every further run, and
  every \<open>buy\<close> and \<open>sell\<close> then reverts, leaving the state as it was.
\<close>

theorem graduation_once_and_one_way:
  assumes "constructor this members pf router pid = Inr s0"
  shows "graduations (run s0 xcs) = (if graduated (run s0 xcs) then 1 else 0)
       \<and> (graduated (run s0 xcs) \<longleftrightarrow> GRADUATION_THRESHOLD \<le> totalETHRaised (run s0 xcs))
       \<and> graduations (transact (run s0 xcs) (x, c)) = graduations (run s0 xcs) +
           (if totalETHRaised (run s0 xcs) < GRADUATION_THRESHOLD
               \<and> GRADUATION_THRESHOLD \<le> totalETHRaised (transact (run s0 xcs) (x, c)) then 1 else 0)
       \<and> (graduated (run s0 xcs) \<longrightarrow>
             graduated (run (run s0 xcs) ycs)
           \<and> buy x (run s0 xcs) a v = Inl (Revert ''Already graduated'')
           \<and> sell x (run s0 xcs) a n = Inl (Revert ''Already graduated - use Uniswap'')
           \<and> transact (run s0 xcs) (x, Buy a v) = run s0 xcs
           \<and> transact (run s0 xcs) (x, Sell a n) = run s0 xcs)"
proof -
  have i: "curve_inv (run s0 xcs)" by (rule reachable_inv[OF assms])
  then have 1: "graduations (run s0 xcs) = (if graduated (run s0 xcs) then 1 else 0)"
    and 2: "graduated (run s0 xcs) \<longleftrightarrow> GRADUATION_THRESHOLD \<le> totalETHRaised (run s0 xcs)"
    by (simp_all add: curve_inv_def)
  note 3 = transact_graduations[OF i, of x c]
  have 4: "graduated (run s0 xcs) \<longrightarrow>
             graduated (run (run s0 xcs) ycs)
           \<and> buy x (run s0 xcs) a v = Inl (Revert ''Already graduated'')
           \<and> sell x (run s0 xcs) a n = Inl (Revert ''Already graduated - use Uniswap'')
           \<and> transact (run s0 xcs) (x, Buy a v) = run s0 xcs
           \<and> transact (run s0 xcs) (x, Sell a n) = run s0 xcs"
    by (simp add: run_graduated_mono buy_graduated sell_graduated transact_def)
  from 1 2 3 4 show ?thesis by blast
qed

text \<open>
  The demo deployment after one purchase of 10 ether: it has graduated once, and a further
  purchase or sale reverts.
\<close>

theorem graduation_once_and_one_way_witness:
  "constructor 77 [1, 2, 3] 50 60 7 = Inr demo_token
   \<and> graduated (run demo_token [(world, Buy 9 (10 ^ 19))])
   \<and> graduations (run demo_token [(world, Buy 9 (10 ^ 19))]) = 1
   \<and> graduations (transact (run demo_token [(world, Buy 9 (10 ^ 19))]) (world, Buy 9 5)) = 1
   \<and> graduated (run (run demo_token [(world, Buy 9 (10 ^ 19))]) [(world, Receive 3), (world, Graduate)])
   \<and> buy world (run demo_token [(world, Buy 9 (10 ^ 19))]) 9 5 = Inl (Revert ''Already graduated'')
   \<and> sell world (run demo_token [(world, Buy 9 (10 ^ 19))]) 9 5
        = Inl (Revert ''Already graduated - use Uniswap'')
   \<and> transact (run demo_token [(world, Buy 9 (10 ^ 19))]) (world, Buy 9 5)
        = run demo_token [(world, Buy 9 (10 ^ 19))]
   \<and> transact (run demo_token [(world, Buy 9 (10 ^ 19))]) (world, Sell 9 5)
        = run demo_token [(world, Buy 9 (10 ^ 19))]"
  using graduation_once_and_one_way[OF demo_constructed,
      of "[(world, Buy 9 (10 ^ 19))]" world "Buy 9 5" "[(world, Receive 3), (world, Graduate)]" 9 5 5]
    demo_graduates demo_constructed
  by (simp del: One_nat_def)

subsection \<open>The fee split\<close>

text \<open>
  C4. Every successful \<open>buy\<close> of \<open>v\<close> wei has \<open>v > 0\<close> and emits \<open>FeesDistributed\<close> with
  \<open>platformFee = v * 3000 div 10000\<close>, \<open>agentFee = v * 1000 div 10000\<close> and
  \<open>liquidityAmount = v - platformFee - agentFee\<close>; the three parts add up to \<open>v\<close> exactly,
  and the reserve grows by \<open>liquidityAmount\<close>.
\<close>

theorem fee_split_exact:
  assumes "buy x s a v = Inr s'"
  shows "0 < v \<and> (\<exists>tok p rest platformFee agentFee liquidityAmount.
       events s' = events s @ [TokensPurchased a v tok p,
                               FeesDistributed platformFee agentFee liquidityAmount] @ rest
     \<and> platformFee = v * PLATFORM_FEE_BPS div BPS_DIVISOR
     \<and> agentFee = v * AGENT_FEE_BPS div BPS_DIVISOR
     \<and> liquidityAmount = v - platformFee - agentFee
     \<and> platformFee + agentFee + liquidityAmount = v
     \<and> liquidityReserve s' = liquidityReserve s + liquidityAmount
     \<and> totalETHRaised s' = totalETHRaised s + v)"
proof -
  have sum: "v * 3000 div 10000 + v * 1000 div 10000
               + (v - v * 3000 div 10000 - v * 1000 div 10000) = v"
    by simp
  from buy_counters[OF assms] sum show ?thesis
    unfolding PLATFORM_FEE_BPS_def AGENT_FEE_BPS_def BPS_DIVISOR_def by blast
qed

text \<open>A purchase of 1 wei on the fresh demo deployment.\<close>

theorem fee_split_exact_witness:
  "buy world demo_token 9 1 = Inr (bought demo_token 9 1 100000 (10 ^ 13))
   \<and> (\<exists>tok p rest platformFee agentFee liquidityAmount.
       events (bought demo_token 9 1 100000 (10 ^ 13)) = events demo_token @ [TokensPurchased 9 1 tok p,
                               FeesDistributed platformFee agentFee liquidityAmount] @ rest
     \<and> platformFee = 1 * PLATFORM_FEE_BPS div BPS_DIVISOR
     \<and> agentFee = 1 * AGENT_FEE_BPS div BPS_DIVISOR
     \<and> liquidityAmount = 1 - platformFee - agentFee
     \<and> platformFee + agentFee + liquidityAmount = 1
     \<and> liquidityReserve (bought demo_token 9 1 100000 (10 ^ 13)) = liquidityReserve demo_token + liquidityAmount
     \<and> totalETHRaised (bought demo_token 9 1 100000 (10 ^ 13)) = totalETHRaised demo_token + 1)"
  using fee_split_exact[OF demo_buy_1] demo_buy_1 by blast

subsection \<open>The sale return\<close>

lemma calculateSaleReturn_value:
  assumes "0 < n" "n \<le> totalSupply s"
    and "n * (INITIAL_PRICE + totalSupply s div 10 ^ 18 * PRICE_INCREMENT) \<le> MAX_UINT256"
  shows "calculateSaleReturn s n =
           Inr (min (n * (INITIAL_PRICE + totalSupply s div 10 ^ 18 * PRICE_INCREMENT) div 10 ^ 18)
                    (liquidityReserve s))"
proof -
  let ?p = "INITIAL_PRICE + totalSupply s div 10 ^ 18 * PRICE_INCREMENT"
  from assms(1) have "?p \<le> n * ?p" by simp
  from this assms(3) have p: "?p \<le> MAX_UINT256" by (rule order_trans)
  then have "totalSupply s div 10 ^ 18 * PRICE_INCREMENT \<le> MAX_UINT256" by simp
  with p have "getCurrentPrice s = Inr ?p"
    by (simp add: getCurrentPrice_def checked_mul_def checked_add_def bindE_simps)
  with assms show ?thesis
    by (simp add: calculateSaleReturn_def checked_mul_def checked_div_def bindE_simps min_def)
qed

text \<open>Before graduation the supply is below \<open>10^24\<close>; purchases within the limit keep it below \<open>SUPPLY_LIMIT\<close>.\<close>

lemma graduate_reverts:
  assumes "curve_inv s"
  shows "\<exists>e. graduate x s = Inl e"
  using assms by (auto simp: curve_inv_def graduate_def)

lemma pre_graduation_supply:
  assumes "curve_inv s" "\<not> graduated s"
  shows "totalSupply s \<le> 10 ^ 24"
proof -
  from assms have "totalETHRaised s < 10 ^ 19" and "totalSupply s \<le> totalETHRaised s * 10 ^ 5"
    by (simp_all add: curve_inv_def GRADUATION_THRESHOLD_def)
  then show ?thesis by simp
qed

lemma half_more_mono: "(a::nat) \<le> b \<Longrightarrow> a + a div 2 \<le> b + b div 2"
  by (simp add: add_mono div_le_mono)

lemma buy_supply:
  assumes "curve_inv s" "buy x s a v = Inr s'" "v \<le> ETHER_LIMIT"
  shows "totalSupply s' \<le> SUPPLY_LIMIT"
proof -
  from buy_Inr[OF assms(2)] obtain tok p b where
    ng: "\<not> graduated s" and tok: "calculatePurchaseReturn s v = Inr tok" and
    s': "if GRADUATION_THRESHOLD \<le> totalETHRaised s + v
          then graduate_internal x (purchased b s a v tok p) = Inr s'
          else s' = purchased b s a v tok p"
    by blast
  from calculatePurchaseReturn_Inr[OF tok] assms(3) have "tok \<le> ETHER_LIMIT * 10 ^ 5"
    by (meson le_trans mult_le_mono1)
  with pre_graduation_supply[OF assms(1) ng]
  have le: "totalSupply s + tok \<le> 10 ^ 24 + ETHER_LIMIT * 10 ^ 5"
    by (rule add_mono)
  from half_more_mono[OF le]
  have up: "totalSupply s + tok + (totalSupply s + tok) div 2 \<le> SUPPLY_LIMIT"
    by (simp add: SUPPLY_LIMIT_def)
  then have lo: "totalSupply s + tok \<le> SUPPLY_LIMIT" by simp
  show ?thesis
  proof (cases "GRADUATION_THRESHOLD \<le> totalETHRaised s + v")
    case True
    with s' have "graduate_internal x (purchased b s a v tok p) = Inr s'" by simp
    from graduate_internal_Inr[OF this] up show ?thesis by (simp add: purchased_def)
  next
    case False
    with s' lo show ?thesis by (simp add: purchased_def)
  qed
qed

lemma transact_supply:
  assumes "curve_inv s" "totalSupply s \<le> SUPPLY_LIMIT" "within_limit xc"
  shows "totalSupply (transact s xc) \<le> SUPPLY_LIMIT"
proof (cases xc)
  case (Pair x c)
  show ?thesis
  proof (cases c)
    case (Buy a v)
    with Pair assms buy_supply[OF assms(1), of x a v] show ?thesis
      by (auto simp: transact_def split: sum.splits)
  next
    case (Sell a n)
    with Pair assms(2) show ?thesis
      by (auto simp: transact_def split: sum.splits dest!: sell_Inr)
  next
    case Graduate
    with Pair assms(2) graduate_reverts[OF assms(1), of x] show ?thesis
      by (auto simp: transact_def)
  next
    case (ClaimAgentFees a)
    with Pair assms(2) show ?thesis
      by (auto simp: transact_def split: sum.splits dest!: claimAgentFees_Inr)
  next
    case (Receive v)
    with Pair assms(2) show ?thesis
      by (simp add: transact_def receive_def)
  next
    case (Transfer a b n)
    with Pair assms(2) show ?thesis
      by (auto simp: transact_def split: sum.splits dest!: transfer_Inr)
  qed
qed

lemma run_supply:
  assumes "curve_inv s" "totalSupply s \<le> SUPPLY_LIMIT" "list_all within_limit xcs"
  shows "totalSupply (run s xcs) \<le> SUPPLY_LIMIT"
  using assms unfolding run_def
  by (induction xcs arbitrary: s) (simp_all add: transact_supply transact_inv)

lemma limit_no_overflow:
  assumes "totalSupply s \<le> SUPPLY_LIMIT" "n \<le> totalSupply s"
  shows "n * (INITIAL_PRICE + totalSupply s div 10 ^ 18 * PRICE_INCREMENT) \<le> MAX_UINT256"
proof -
  from assms(1) have "totalSupply s div 10 ^ 18 \<le> SUPPLY_LIMIT div 10 ^ 18" by (rule div_le_mono)
  then have p: "INITIAL_PRICE + totalSupply s div 10 ^ 18 * PRICE_INCREMENT
                  \<le> 10 ^ 13 + SUPPLY_LIMIT div 10 ^ 18"
    by (simp add: INITIAL_PRICE_def PRICE_INCREMENT_def)
  from assms have "n \<le> SUPPLY_LIMIT" by simp
  from mult_le_mono[OF this p]
  have "n * (INITIAL_PRICE + totalSupply s div 10 ^ 18 * PRICE_INCREMENT)
          \<le> SUPPLY_LIMIT * (10 ^ 13 + SUPPLY_LIMIT div 10 ^ 18)" .
  also have "\<dots> \<le> MAX_UINT256"
    by (simp add: SUPPLY_LIMIT_def ETHER_LIMIT_def MAX_UINT256_def)
  finally show ?thesis .
qed

text \<open>
  C5. In every state reached from a deployment by transactions whose purchases each carry
  at most \<open>2^128\<close> wei (no call can carry more ether than exists, which is far less), before
  and after graduation, for every \<open>0 < n \<le> totalSupply\<close>, \<open>calculateSaleReturn n\<close> returns
  \<open>min (n * price div 10^18) liquidityReserve\<close> as a normal result, where
  \<open>price = INITIAL_PRICE + totalSupply div 10^18 * PRICE_INCREMENT\<close>: the amount never
  exceeds the reserve, and the capped amount is a result, not an error.
\<close>

theorem sale_return_capped:
  assumes "constructor this members pf router pid = Inr s0"
    and "list_all within_limit xcs"
    and "0 < n" and "n \<le> totalSupply (run s0 xcs)"
  shows "calculateSaleReturn (run s0 xcs) n =
           Inr (min (n * (INITIAL_PRICE + totalSupply (run s0 xcs) div 10 ^ 18 * PRICE_INCREMENT) div 10 ^ 18)
                    (liquidityReserve (run s0 xcs)))"
proof -
  have i: "curve_inv s0" by (rule constructor_inv[OF assms(1)])
  from assms(1) have "totalSupply s0 = 0"
    by (auto simp: constructor_def split: if_splits)
  then have "totalSupply s0 \<le> SUPPLY_LIMIT" by simp
  from run_supply[OF i this assms(2)] assms(4)
  have "n * (INITIAL_PRICE + totalSupply (run s0 xcs) div 10 ^ 18 * PRICE_INCREMENT) \<le> MAX_UINT256"
    by (rule limit_no_overflow)
  with assms(3,4) show ?thesis by (rule calculateSaleReturn_value)
qed

text \<open>
  Before graduation: after a purchase of 20 wei the formula gives 20 wei for the 2000000
  tokens minted, the reserve holds 12, and 12 is returned. After graduation: a purchase of
  10 ether graduates the token with a supply of \<open>15 * 10^23\<close> and a reserve of 6 ether, and
  the sale return of \<open>10^24\<close> tokens is capped at those 6 ether.
\<close>

theorem sale_return_capped_witness:
  "constructor 77 [1, 2, 3] 50 60 7 = Inr demo_token
   \<and> list_all within_limit [(world, Buy 9 20)]
   \<and> (0::nat) < 2000000
   \<and> 2000000 \<le> totalSupply (run demo_token [(world, Buy 9 20)])
   \<and> \<not> graduated (run demo_token [(world, Buy 9 20)])
   \<and> calculateSaleReturn (run demo_token [(world, Buy 9 20)]) 2000000 = Inr 12
   \<and> list_all within_limit [(world, Buy 9 (10 ^ 19))]
   \<and> (0::nat) < 10 ^ 24
   \<and> 10 ^ 24 \<le> totalSupply (run demo_token [(world, Buy 9 (10 ^ 19))])
   \<and> graduated (run demo_token [(world, Buy 9 (10 ^ 19))])
   \<and> calculateSaleReturn (run demo_token [(world, Buy 9 (10 ^ 19))]) (10 ^ 24) = Inr (6 * 10 ^ 18)"
proof -
  have a: "(0::nat) < 2000000" by simp
  have w: "list_all within_limit [(world, Buy 9 20)]" by (simp add: ETHER_LIMIT_def)
  have e: "totalSupply (run demo_token [(world, Buy 9 20)]) = 2000000"
    unfolding demo_run_20 by (simp add: bought_def demo_token_def)
  then have b: "2000000 \<le> totalSupply (run demo_token [(world, Buy 9 20)])" by simp
  have c: "\<not> graduated (run demo_token [(world, Buy 9 20)])"
    unfolding demo_run_20 by (simp add: bought_def demo_token_def)
  have d: "liquidityReserve (run demo_token [(world, Buy 9 20)]) = 12"
    unfolding demo_run_20 by (simp add: bought_def demo_token_def)
  have 1: "calculateSaleReturn (run demo_token [(world, Buy 9 20)]) 2000000 = Inr 12"
    unfolding sale_return_capped[OF demo_constructed w a b] e d
    by (simp add: INITIAL_PRICE_def PRICE_INCREMENT_def)
  have a': "(0::nat) < 10 ^ 24" by simp
  have w': "list_all within_limit [(world, Buy 9 (10 ^ 19))]" by (simp add: ETHER_LIMIT_def)
  have b': "10 ^ 24 \<le> totalSupply (run demo_token [(world, Buy 9 (10 ^ 19))])"
    unfolding demo_graduated_supply by simp
  have 2: "calculateSaleReturn (run demo_token [(world, Buy 9 (10 ^ 19))]) (10 ^ 24) = Inr (6 * 10 ^ 18)"
    unfolding sale_return_capped[OF demo_constructed w' a' b'] demo_graduated_supply
      demo_graduated_reserve
    by (simp add: INITIAL_PRICE_def PRICE_INCREMENT_def)
  from demo_constructed w a b c 1 w' a' b' demo_graduates 2 show ?thesis by blast
qed

subsection \<open>Claiming agent fees\<close>












text \<open>
  A claim from inside a purchase. When the platform recipient is quorum member 1 and claims
  during the platform fee transfer of a purchase of 30 wei, it is paid a third of the
  21 wei held at that moment, of which 3 wei are agent fees, and the purchase leaves
  14 wei held against a reserve of 18.
\<close>

lemma claim_inside_buy:
  "constructor 77 [1, 2, 3] 1 60 7
     = Inr (demo_token\<lparr>feeRecipients := \<lparr>platform = 1, agentTreasury = 77\<rparr>\<rparr>)
   \<and> \<not> graduated (run (demo_token\<lparr>feeRecipients := \<lparr>platform = 1, agentTreasury = 77\<rparr>\<rparr>)
        [(world\<lparr>platformCallback := [(True, 1)]\<rparr>, Buy 9 30)])
   \<and> balance (run (demo_token\<lparr>feeRecipients := \<lparr>platform = 1, agentTreasury = 77\<rparr>\<rparr>)
        [(world\<lparr>platformCallback := [(True, 1)]\<rparr>, Buy 9 30)]) = 14
   \<and> liquidityReserve (run (demo_token\<lparr>feeRecipients := \<lparr>platform = 1, agentTreasury = 77\<rparr>\<rparr>)
        [(world\<lparr>platformCallback := [(True, 1)]\<rparr>, Buy 9 30)]) = 18"
  by (simp add: constructor_def eval_defs demo_token_def)

subsection \<open>Amount raised and reserve\<close>

text \<open>
  C10. A deployment starts with \<open>totalETHRaised = 0\<close> and \<open>liquidityReserve = 0\<close>, and in
  every state reached from it by any sequence of transactions
  \<open>liquidityReserve \<le> totalETHRaised\<close>. A successful \<open>buy\<close> of \<open>v\<close> wei adds \<open>v\<close> to
  \<open>totalETHRaised\<close> and only \<open>v - platformFee - agentFee\<close> to \<open>liquidityReserve\<close>, which
  makes the reserve strictly smaller as soon as \<open>v \<ge> 4\<close>; a successful \<open>sell\<close> leaves
  \<open>totalETHRaised\<close> unchanged and takes the sale return, which is at most the reserve, from
  \<open>liquidityReserve\<close>.
\<close>

theorem raised_covers_reserve:
  assumes "constructor this members pf router pid = Inr s0"
  shows "totalETHRaised s0 = 0 \<and> liquidityReserve s0 = 0
    \<and> liquidityReserve (run s0 xcs) \<le> totalETHRaised (run s0 xcs)
    \<and> (\<forall>s'. buy x (run s0 xcs) a v = Inr s' \<longrightarrow>
          totalETHRaised s' = totalETHRaised (run s0 xcs) + v
        \<and> liquidityReserve s' = liquidityReserve (run s0 xcs)
            + (v - v * PLATFORM_FEE_BPS div BPS_DIVISOR - v * AGENT_FEE_BPS div BPS_DIVISOR)
        \<and> (4 \<le> v \<longrightarrow> liquidityReserve s' < totalETHRaised s'))
    \<and> (\<forall>s'. sell x (run s0 xcs) a n = Inr s' \<longrightarrow>
          totalETHRaised s' = totalETHRaised (run s0 xcs)
        \<and> (\<exists>e. calculateSaleReturn (run s0 xcs) n = Inr e \<and> e \<le> liquidityReserve (run s0 xcs)
              \<and> liquidityReserve s' = liquidityReserve (run s0 xcs) - e))"
proof -
  have i: "curve_inv (run s0 xcs)" by (rule reachable_inv[OF assms])
  then have le: "liquidityReserve (run s0 xcs) \<le> totalETHRaised (run s0 xcs)"
    by (simp add: curve_inv_def)
  from assms have z: "totalETHRaised s0 = 0 \<and> liquidityReserve s0 = 0"
    by (auto simp: constructor_def split: if_splits)
  have b: "totalETHRaised s' = totalETHRaised (run s0 xcs) + v
        \<and> liquidityReserve s' = liquidityReserve (run s0 xcs)
            + (v - v * PLATFORM_FEE_BPS div BPS_DIVISOR - v * AGENT_FEE_BPS div BPS_DIVISOR)
        \<and> (4 \<le> v \<longrightarrow> liquidityReserve s' < totalETHRaised s')"
    if "buy x (run s0 xcs) a v = Inr s'" for s'
    using buy_counters[OF that] le
    by (auto simp: PLATFORM_FEE_BPS_def AGENT_FEE_BPS_def BPS_DIVISOR_def)
  have c: "totalETHRaised s' = totalETHRaised (run s0 xcs)
        \<and> (\<exists>e. calculateSaleReturn (run s0 xcs) n = Inr e \<and> e \<le> liquidityReserve (run s0 xcs)
              \<and> liquidityReserve s' = liquidityReserve (run s0 xcs) - e)"
    if "sell x (run s0 xcs) a n = Inr s'" for s'
    by (rule sell_counters[OF that])
  from z le b c show ?thesis by blast
qed

text \<open>The demo deployment after a purchase of 20 wei, then a purchase of 40 wei or a sale.\<close>

theorem raised_covers_reserve_witness:
  "constructor 77 [1, 2, 3] 50 60 7 = Inr demo_token
   \<and> liquidityReserve (run demo_token [(world, Buy 9 20)])
        \<le> totalETHRaised (run demo_token [(world, Buy 9 20)])
   \<and> buy world (run demo_token [(world, Buy 9 20)]) 9 40 =
        Inr (bought (bought demo_token 9 20 2000000 (10 ^ 13)) 9 40 4000000 (10 ^ 13))
   \<and> totalETHRaised (bought (bought demo_token 9 20 2000000 (10 ^ 13)) 9 40 4000000 (10 ^ 13))
        = totalETHRaised (run demo_token [(world, Buy 9 20)]) + 40
   \<and> liquidityReserve (bought (bought demo_token 9 20 2000000 (10 ^ 13)) 9 40 4000000 (10 ^ 13))
        < totalETHRaised (bought (bought demo_token 9 20 2000000 (10 ^ 13)) 9 40 4000000 (10 ^ 13))
   \<and> sell world (run demo_token [(world, Buy 9 20)]) 9 1000000 =
        Inr ((bought demo_token 9 20 2000000 (10 ^ 13))
           \<lparr>balanceOf := (\<lambda>_. 0)(9 := 1000000), totalSupply := 1000000,
            liquidityReserve := 2, balance := 4,
            events := events (bought demo_token 9 20 2000000 (10 ^ 13))
                        @ [TokensSold 9 1000000 10 (10 ^ 13)]\<rparr>)
   \<and> totalETHRaised ((bought demo_token 9 20 2000000 (10 ^ 13))
           \<lparr>balanceOf := (\<lambda>_. 0)(9 := 1000000), totalSupply := 1000000,
            liquidityReserve := 2, balance := 4,
            events := events (bought demo_token 9 20 2000000 (10 ^ 13))
                        @ [TokensSold 9 1000000 10 (10 ^ 13)]\<rparr>)
        = totalETHRaised (run demo_token [(world, Buy 9 20)])"
proof -
  have b: "buy world (run demo_token [(world, Buy 9 20)]) 9 40 =
        Inr (bought (bought demo_token 9 20 2000000 (10 ^ 13)) 9 40 4000000 (10 ^ 13))"
    unfolding demo_run_20 by (rule demo_buy_40)
  have s: "sell world (run demo_token [(world, Buy 9 20)]) 9 1000000 =
        Inr ((bought demo_token 9 20 2000000 (10 ^ 13))
           \<lparr>balanceOf := (\<lambda>_. 0)(9 := 1000000), totalSupply := 1000000,
            liquidityReserve := 2, balance := 4,
            events := events (bought demo_token 9 20 2000000 (10 ^ 13))
                        @ [TokensSold 9 1000000 10 (10 ^ 13)]\<rparr>)"
    unfolding demo_run_20 by (rule demo_sell)
  have f: "(4::nat) \<le> 40" by simp
  from raised_covers_reserve[OF demo_constructed, of "[(world, Buy 9 20)]" world 9 40 1000000]
    b s f demo_constructed
  show ?thesis by blast
qed

end
